theory Spec2Isabelle
  imports Main "HOL-Library.Multiset"
begin

section \<open>The evaluation job queue of db/dataset\_eval.py\<close>

text \<open>
  The module keeps one table, \<open>dataset_eval_jobs\<close>, and reads and writes it with single
  SQL statements. The table is modelled as the list of its rows, every statement as a
  list function, and every Python function as a state transformer that takes the table
  and returns its result together with the table it leaves behind. An exception is the
  \<open>Inl\<close> side of the result; since every raise of the module happens before the first
  write of its transaction, the table returned with an exception is the one received.

  What the database supplies during a call is an argument of the model: the value of
  \<open>current_timestamp\<close> (\<open>now\<close>) and the value of \<open>uuid_generate_v4()\<close> (\<open>new_id\<close>).
\<close>

subsection \<open>Data\<close>

type_synonym uuid = string
type_synonym timestamp = nat

text \<open>A row of \<open>dataset_eval_jobs\<close>, with the seven columns every SELECT names.\<close>

record job =
  job_id :: uuid
  dataset_id :: uuid
  status :: string
  status_msg :: "string option"
  result :: "string option"
  created :: timestamp
  updated :: timestamp

type_synonym table = "job list"

text \<open>The part of a dataset that validation reads: its classes and their recordings.\<close>

record dataset_class =
  recordings :: "string list"

record dataset =
  classes :: "dataset_class list"

datatype error =
    JobExistsException
  | IncorrectJobStatusException
  | Exception string
  | CollaboratorError string

text \<open>
  The collaborators the module imports and calls: \<open>db.dataset.get\<close>,
  \<open>dataset_validator.validate\<close> with \<open>complete=True\<close> (\<open>None\<close> when it accepts),
  and \<open>db.data.count_lowlevel\<close>.
\<close>

record env =
  dataset_get :: "uuid \<Rightarrow> error + dataset"
  validator_validate :: "dataset \<Rightarrow> error option"
  count_lowlevel :: "string \<Rightarrow> nat"

subsection \<open>Job statuses\<close>

definition STATUS_PENDING :: string where
  "STATUS_PENDING = ''pending''"

definition STATUS_RUNNING :: string where
  "STATUS_RUNNING = ''running''"

definition STATUS_DONE :: string where
  "STATUS_DONE = ''done''"

definition STATUS_FAILED :: string where
  "STATUS_FAILED = ''failed''"

subsection \<open>Statements\<close>

text \<open>\<open>fetchone()\<close> of a result set: its first row, or \<open>None\<close>.\<close>

definition fetchone :: "'a list \<Rightarrow> 'a option" where
  "fetchone rows = (case rows of [] \<Rightarrow> None | r # _ \<Rightarrow> Some r)"

text \<open>
  \<open>SELECT count(*) FROM dataset_eval_jobs WHERE dataset_id = %s AND status IN %s\<close>
  with the pair (pending, running).
\<close>

definition count_active :: "uuid \<Rightarrow> table \<Rightarrow> nat" where
  "count_active d tbl =
     length (filter (\<lambda>j. dataset_id j = d \<and> status j \<in> set [STATUS_PENDING, STATUS_RUNNING]) tbl)"

text \<open>
  Modelled from the spec: the declaration of table \<open>dataset_eval_jobs\<close> (the schema the
  module's first comment points to) is not part of the source, and the INSERT names
  only \<open>id\<close>, \<open>dataset_id\<close> and \<open>status\<close>. The other columns take what the spec's data
  model gives them: \<open>status_msg\<close> and \<open>result\<close> are nullable and absent until set,
  \<open>created\<close> is the time of insertion, and \<open>updated\<close> starts there.
\<close>

definition new_row :: "timestamp \<Rightarrow> uuid \<Rightarrow> uuid \<Rightarrow> string \<Rightarrow> job" where
  "new_row now i d st =
     \<lparr>job_id = i, dataset_id = d, status = st, status_msg = None, result = None,
      created = now, updated = now\<rparr>"

subsection \<open>Validation\<close>

text \<open>
  The loop of \<open>validate_dataset\<close> carries \<open>rec_memo\<close>; the model also records, in order,
  every recording handed to \<open>count_lowlevel\<close>.
\<close>

record vstate =
  rec_memo :: "string \<rightharpoonup> bool"
  lookups :: "string list"

definition memo_hit :: "vstate \<Rightarrow> string \<Rightarrow> bool" where
  "memo_hit v r = (case rec_memo v r of None \<Rightarrow> False | Some b \<Rightarrow> b)"

definition missing_msg :: "string \<Rightarrow> string" where
  "missing_msg r = ''Can't find low-level data for recording: '' @ r"

text \<open>
  The inner loop. The first \<open>if\<close> is the branch whose body is \<open>pass\<close>: either way the
  state is untouched and control reaches the lookup.
\<close>

fun check_recordings :: "(string \<Rightarrow> nat) \<Rightarrow> string list \<Rightarrow> vstate \<Rightarrow> (error + unit) \<times> vstate" where
  "check_recordings cnt [] v = (Inr (), v)"
| "check_recordings cnt (r # rs) v =
     (let v0 = (if memo_hit v r then v else v);
          v1 = v0\<lparr>lookups := lookups v0 @ [r]\<rparr>
      in if cnt r > 0
         then check_recordings cnt rs (v1\<lparr>rec_memo := (rec_memo v1)(r \<mapsto> True)\<rparr>)
         else (Inl (Exception (missing_msg r)), v1))"

text \<open>The outer loop over \<open>dataset["classes"]\<close>; an exception leaves both loops.\<close>

fun check_classes :: "(string \<Rightarrow> nat) \<Rightarrow> dataset_class list \<Rightarrow> vstate \<Rightarrow> (error + unit) \<times> vstate" where
  "check_classes cnt [] v = (Inr (), v)"
| "check_classes cnt (c # cs) v =
     (case check_recordings cnt (recordings c) v of
        (Inl e, v') \<Rightarrow> (Inl e, v')
      | (Inr u, v') \<Rightarrow> check_classes cnt cs v')"

text \<open>
  \<open>validate_dataset\<close>: the structural validator first, then the loops from an empty
  memo. The second component is the sequence of low-level lookups made.
\<close>

definition validate_dataset :: "env \<Rightarrow> dataset \<Rightarrow> (error + unit) \<times> string list" where
  "validate_dataset e ds =
     (case validator_validate e ds of
        Some err \<Rightarrow> (Inl err, [])
      | None \<Rightarrow>
          (case check_classes (count_lowlevel e) (classes ds) \<lparr>rec_memo = Map.empty, lookups = []\<rparr> of
             (r, v) \<Rightarrow> (r, lookups v)))"

text \<open>
  The variant the memoization claim compares with: no \<open>rec_memo\<close> at all, one lookup
  for every recording reference, repeated ones included.
\<close>

fun check_recordings_nomemo :: "(string \<Rightarrow> nat) \<Rightarrow> string list \<Rightarrow> string list \<Rightarrow> (error + unit) \<times> string list" where
  "check_recordings_nomemo cnt [] tr = (Inr (), tr)"
| "check_recordings_nomemo cnt (r # rs) tr =
     (if cnt r > 0
      then check_recordings_nomemo cnt rs (tr @ [r])
      else (Inl (Exception (missing_msg r)), tr @ [r]))"

fun check_classes_nomemo :: "(string \<Rightarrow> nat) \<Rightarrow> dataset_class list \<Rightarrow> string list \<Rightarrow> (error + unit) \<times> string list" where
  "check_classes_nomemo cnt [] tr = (Inr (), tr)"
| "check_classes_nomemo cnt (c # cs) tr =
     (case check_recordings_nomemo cnt (recordings c) tr of
        (Inl e, tr') \<Rightarrow> (Inl e, tr')
      | (Inr u, tr') \<Rightarrow> check_classes_nomemo cnt cs tr')"

definition validate_dataset_nomemo :: "env \<Rightarrow> dataset \<Rightarrow> (error + unit) \<times> string list" where
  "validate_dataset_nomemo e ds =
     (case validator_validate e ds of
        Some err \<Rightarrow> (Inl err, [])
      | None \<Rightarrow> check_classes_nomemo (count_lowlevel e) (classes ds) [])"

subsection \<open>Operations\<close>

text \<open>\<open>_create_job\<close>: the INSERT with status pending, returning the generated id.\<close>

definition create_job :: "timestamp \<Rightarrow> uuid \<Rightarrow> uuid \<Rightarrow> table \<Rightarrow> (error + uuid) \<times> table" where
  "create_job now new_id d tbl =
     (let tbl' = tbl @ [new_row now new_id d STATUS_PENDING]
      in (Inr new_id, tbl'))"

definition evaluate_dataset :: "env \<Rightarrow> timestamp \<Rightarrow> uuid \<Rightarrow> uuid \<Rightarrow> table \<Rightarrow> (error + uuid) \<times> table" where
  "evaluate_dataset e now new_id d tbl =
     (if count_active d tbl > 0 then (Inl JobExistsException, tbl)
      else case dataset_get e d of
             Inl err \<Rightarrow> (Inl err, tbl)
           | Inr ds \<Rightarrow>
               (case fst (validate_dataset e ds) of
                  Inl err \<Rightarrow> (Inl err, tbl)
                | Inr u \<Rightarrow> create_job now new_id d tbl))"

text \<open>
  \<open>ORDER BY created ASC\<close> is the stable sort on \<open>created\<close>: SQL leaves the order of rows
  with equal \<open>created\<close> open, the model keeps them in table order.
\<close>

definition get_next_pending_job :: "table \<Rightarrow> (error + job option) \<times> table" where
  "get_next_pending_job tbl =
     (Inr (fetchone (sort_key created (filter (\<lambda>j. status j = STATUS_PENDING) tbl))), tbl)"

definition get_job :: "uuid \<Rightarrow> table \<Rightarrow> (error + job option) \<times> table" where
  "get_job i tbl = (Inr (fetchone (filter (\<lambda>j. job_id j = i) tbl)), tbl)"

definition get_jobs_for_dataset :: "uuid \<Rightarrow> table \<Rightarrow> (error + job list) \<times> table" where
  "get_jobs_for_dataset d tbl =
     (Inr (sort_key created (filter (\<lambda>j. dataset_id j = d) tbl)), tbl)"

definition set_job_result :: "uuid \<Rightarrow> string option \<Rightarrow> timestamp \<Rightarrow> table \<Rightarrow> (error + unit) \<times> table" where
  "set_job_result i r now tbl =
     (Inr (), map (\<lambda>j. if job_id j = i then j\<lparr>result := r, updated := now\<rparr> else j) tbl)"

definition set_job_status :: "uuid \<Rightarrow> string \<Rightarrow> string option \<Rightarrow> timestamp \<Rightarrow> table \<Rightarrow> (error + unit) \<times> table" where
  "set_job_status i st msg now tbl =
     (if st \<notin> set [STATUS_PENDING, STATUS_RUNNING, STATUS_DONE, STATUS_FAILED]
      then (Inl IncorrectJobStatusException, tbl)
      else (Inr (),
            map (\<lambda>j. if job_id j = i then j\<lparr>status := st, status_msg := msg, updated := now\<rparr> else j) tbl))"

subsection \<open>A small store\<close>

text \<open>
  Concrete inputs for the instances below: dataset A is complete, dataset B refers to
  recording R, which has no low-level data; any other dataset id is unknown to
  \<open>db.dataset.get\<close>.
\<close>

definition ex_ds_ok :: dataset where
  "ex_ds_ok = \<lparr>classes = [\<lparr>recordings = [''r1'', ''r2'']\<rparr>, \<lparr>recordings = [''r1'']\<rparr>]\<rparr>"

definition ex_ds_bad :: dataset where
  "ex_ds_bad = \<lparr>classes = [\<lparr>recordings = [''r1'']\<rparr>, \<lparr>recordings = [''R'', ''r2'']\<rparr>]\<rparr>"

definition ex_env :: env where
  "ex_env =
     \<lparr>dataset_get = (\<lambda>d. if d = ''A'' then Inr ex_ds_ok
                          else if d = ''B'' then Inr ex_ds_bad
                          else Inl (CollaboratorError ''NoDataFoundException'')),
      validator_validate = (\<lambda>ds. None),
      count_lowlevel = (\<lambda>r. if r = ''R'' then 0 else 1)\<rparr>"

definition ex_job1 :: job where
  "ex_job1 = \<lparr>job_id = ''j1'', dataset_id = ''A'', status = ''done'', status_msg = None,
              result = Some ''{}'', created = 5, updated = 6\<rparr>"

definition ex_job2 :: job where
  "ex_job2 = \<lparr>job_id = ''j2'', dataset_id = ''B'', status = ''pending'', status_msg = None,
              result = None, created = 3, updated = 3\<rparr>"

definition ex_job3 :: job where
  "ex_job3 = \<lparr>job_id = ''j3'', dataset_id = ''A'', status = ''pending'', status_msg = None,
              result = None, created = 2, updated = 2\<rparr>"

definition ex_tbl :: table where
  "ex_tbl = [ex_job1, ex_job2, ex_job3]"

lemmas status_defs = STATUS_PENDING_def STATUS_RUNNING_def STATUS_DONE_def STATUS_FAILED_def

lemmas ex_defs = ex_ds_ok_def ex_ds_bad_def ex_env_def ex_job1_def ex_job2_def ex_job3_def ex_tbl_def

section \<open>Result sets\<close>

lemma fetchone_sort_key_least:
  assumes "xs \<noteq> []"
  shows "\<exists>j. fetchone (sort_key f xs) = Some j \<and> j \<in> set xs \<and> (\<forall>k\<in>set xs. f j \<le> f k)"
proof (cases "sort_key f xs")
  case Nil
  then have "set (sort_key f xs) = {}" by simp
  then have "xs = []" by simp
  with assms show ?thesis by simp
next
  case (Cons y ys)
  have s: "sorted (map f (y # ys))"
    using sorted_sort_key [of f xs] Cons by simp
  have m: "set (y # ys) = set xs"
    using set_sort [of f xs] Cons by simp
  have "\<forall>k\<in>set (y # ys). f y \<le> f k" using s by auto
  then have "\<forall>k\<in>set xs. f y \<le> f k" unfolding m .
  moreover have "y \<in> set xs" using m by auto
  moreover have "fetchone (sort_key f xs) = Some y" using Cons by (simp add: fetchone_def)
  ultimately show ?thesis by blast
qed

lemma map_unmatched_id:
  "i \<notin> job_id ` set tbl \<Longrightarrow> map (\<lambda>j. if job_id j = i then f j else j) tbl = tbl"
  by (induction tbl) auto

lemma filter_unmatched_id:
  "i \<notin> job_id ` set tbl \<Longrightarrow> filter (\<lambda>j. job_id j = i) tbl = []"
  by (induction tbl) auto

lemma count_active_append:
  "count_active d (tbl @ [j]) =
     count_active d tbl +
       (if dataset_id j = d \<and> status j \<in> {STATUS_PENDING, STATUS_RUNNING} then 1 else 0)"
  by (simp add: count_active_def)

section \<open>Validation\<close>

text \<open>The two loops make one pass over the recordings of all classes, in order.\<close>

lemma check_recordings_append:
  "check_recordings cnt (xs @ ys) v =
     (case check_recordings cnt xs v of
        (Inl e, v') \<Rightarrow> (Inl e, v')
      | (Inr u, v') \<Rightarrow> check_recordings cnt ys v')"
  by (induction xs arbitrary: v) (simp_all add: Let_def)

lemma check_classes_concat:
  "check_classes cnt cs v = check_recordings cnt (concat (map recordings cs)) v"
proof (induction cs arbitrary: v)
  case Nil
  show ?case by simp
next
  case (Cons c cs)
  show ?case
    by (simp add: check_recordings_append Cons.IH split: prod.splits sum.splits)
qed

lemma check_recordings_all_present:
  "\<forall>x\<in>set xs. cnt x > 0 \<Longrightarrow> fst (check_recordings cnt xs v) = Inr ()"
  by (induction xs arbitrary: v) (simp_all add: Let_def)

lemma check_recordings_first_missing:
  assumes "\<forall>x\<in>set pre. cnt x > 0" and "cnt r = 0"
  shows "fst (check_recordings cnt (pre @ r # post) v) = Inl (Exception (missing_msg r))"
proof -
  obtain u v' where a: "check_recordings cnt pre v = (Inr u, v')"
    using check_recordings_all_present [OF assms(1), of v]
    by (cases "check_recordings cnt pre v") auto
  show ?thesis using a assms(2) by (simp add: check_recordings_append Let_def)
qed

lemma validate_dataset_first_missing:
  assumes "validator_validate e ds = None"
    and "concat (map recordings (classes ds)) = pre @ r # post"
    and "\<forall>x\<in>set pre. count_lowlevel e x > 0" and "count_lowlevel e r = 0"
  shows "fst (validate_dataset e ds) = Inl (Exception (missing_msg r))"
proof -
  let ?v = "\<lparr>rec_memo = Map.empty, lookups = []\<rparr>"
  have "fst (check_classes (count_lowlevel e) (classes ds) ?v) = Inl (Exception (missing_msg r))"
    using check_recordings_first_missing [OF assms(3) assms(4), of post ?v]
    by (simp add: check_classes_concat assms(2))
  then show ?thesis
    using assms(1) by (auto simp: validate_dataset_def split: prod.splits)
qed

text \<open>The memo never reaches the outcome or the lookups: both loops agree with the
  loops that carry only the trace.\<close>

lemma check_recordings_fst:
  "fst (check_recordings cnt rs v) = fst (check_recordings_nomemo cnt rs (lookups v))"
  by (induction rs arbitrary: v) (simp_all add: Let_def)

lemma check_recordings_lookups:
  "lookups (snd (check_recordings cnt rs v)) = snd (check_recordings_nomemo cnt rs (lookups v))"
  by (induction rs arbitrary: v) (simp_all add: Let_def)

lemma check_classes_fst:
  "fst (check_classes cnt cs v) = fst (check_classes_nomemo cnt cs (lookups v))"
proof (induction cs arbitrary: v)
  case Nil
  show ?case by simp
next
  case (Cons c cs)
  obtain r v' where a: "check_recordings cnt (recordings c) v = (r, v')"
    by (cases "check_recordings cnt (recordings c) v")
  obtain r2 t2 where b: "check_recordings_nomemo cnt (recordings c) (lookups v) = (r2, t2)"
    by (cases "check_recordings_nomemo cnt (recordings c) (lookups v)")
  have r: "r = r2" using check_recordings_fst [of cnt "recordings c" v] a b by simp
  have t: "lookups v' = t2" using check_recordings_lookups [of cnt "recordings c" v] a b by simp
  show ?case using a b r t Cons.IH [of v'] by (cases r2) simp_all
qed

lemma check_classes_lookups:
  "lookups (snd (check_classes cnt cs v)) = snd (check_classes_nomemo cnt cs (lookups v))"
proof (induction cs arbitrary: v)
  case Nil
  show ?case by simp
next
  case (Cons c cs)
  obtain r v' where a: "check_recordings cnt (recordings c) v = (r, v')"
    by (cases "check_recordings cnt (recordings c) v")
  obtain r2 t2 where b: "check_recordings_nomemo cnt (recordings c) (lookups v) = (r2, t2)"
    by (cases "check_recordings_nomemo cnt (recordings c) (lookups v)")
  have r: "r = r2" using check_recordings_fst [of cnt "recordings c" v] a b by simp
  have t: "lookups v' = t2" using check_recordings_lookups [of cnt "recordings c" v] a b by simp
  show ?case using a b r t Cons.IH [of v'] by (cases r2) simp_all
qed

section \<open>Submission\<close>

text \<open>Whatever \<open>evaluate_dataset\<close> raises, it has written nothing.\<close>

lemma evaluate_dataset_error_keeps_table:
  assumes "fst (evaluate_dataset e now new_id d tbl) = Inl err"
  shows "snd (evaluate_dataset e now new_id d tbl) = tbl"
  using assms
  by (auto simp: evaluate_dataset_def create_job_def split: if_splits sum.splits)

section \<open>The claims\<close>

subsection \<open>Submission\<close>

text \<open>
  C1, as amended. For every dataset id \<open>d\<close> and table such that \<open>d\<close> already has a
  pending or running job, or \<open>db.dataset.get\<close> resolves \<open>d\<close> to a dataset which
  \<open>validate_dataset\<close> accepts: a second \<open>evaluate_dataset\<close> made on the table the
  first one left, whatever timestamp and generated id the database gives it, raises
  \<open>JobExistsException\<close> and leaves that table as it is. When \<open>d\<close> had no pending or
  running job, the first call returned the generated id and added one row, so that \<open>d\<close>
  has exactly one pending or running job; otherwise the first call raised
  \<open>JobExistsException\<close> too and the table never changed.
\<close>

theorem evaluate_dataset_twice:
  assumes "count_active d tbl > 0 \<or>
           (dataset_get e d = Inr ds \<and> fst (validate_dataset e ds) = Inr ())"
  shows "evaluate_dataset e now2 id2 d (snd (evaluate_dataset e now1 id1 d tbl))
           = (Inl JobExistsException, snd (evaluate_dataset e now1 id1 d tbl)) \<and>
         (if count_active d tbl = 0
          then fst (evaluate_dataset e now1 id1 d tbl) = Inr id1 \<and>
               length (snd (evaluate_dataset e now1 id1 d tbl)) = Suc (length tbl) \<and>
               count_active d (snd (evaluate_dataset e now1 id1 d tbl)) = 1
          else evaluate_dataset e now1 id1 d tbl = (Inl JobExistsException, tbl))"
proof (cases "count_active d tbl = 0")
  case True
  with assms have v: "dataset_get e d = Inr ds" "fst (validate_dataset e ds) = Inr ()"
    by simp_all
  let ?t = "tbl @ [new_row now1 id1 d STATUS_PENDING]"
  have f: "evaluate_dataset e now1 id1 d tbl = (Inr id1, ?t)"
    using True v by (simp add: evaluate_dataset_def create_job_def)
  have c: "count_active d ?t = 1"
    using True by (simp add: count_active_append new_row_def)
  have "evaluate_dataset e now2 id2 d ?t = (Inl JobExistsException, ?t)"
    using c by (simp add: evaluate_dataset_def)
  then show ?thesis using True f c by simp
next
  case False
  then have "evaluate_dataset e now t d tbl = (Inl JobExistsException, tbl)" for now t
    by (simp add: evaluate_dataset_def)
  then show ?thesis using False by simp
qed

text \<open>
  Dataset A is complete: with only the finished job j1 in the table the first call
  creates job j7 and the second is refused. Dataset B is incomplete, and in the small
  store its one job j2 is pending: both calls are refused before validation, and the
  table keeps that one job.
\<close>

theorem evaluate_dataset_twice_witness:
  "dataset_get ex_env ''A'' = Inr ex_ds_ok \<and>
   fst (validate_dataset ex_env ex_ds_ok) = Inr () \<and>
   count_active ''A'' [ex_job1] = 0 \<and>
   fst (evaluate_dataset ex_env 7 ''j7'' ''A'' [ex_job1]) = Inr ''j7'' \<and>
   evaluate_dataset ex_env 8 ''j8'' ''A'' (snd (evaluate_dataset ex_env 7 ''j7'' ''A'' [ex_job1]))
     = (Inl JobExistsException, snd (evaluate_dataset ex_env 7 ''j7'' ''A'' [ex_job1])) \<and>
   length (snd (evaluate_dataset ex_env 7 ''j7'' ''A'' [ex_job1])) = 2 \<and>
   count_active ''A'' (snd (evaluate_dataset ex_env 7 ''j7'' ''A'' [ex_job1])) = 1 \<and>
   count_active ''B'' ex_tbl = 1 \<and>
   evaluate_dataset ex_env 7 ''j7'' ''B'' ex_tbl = (Inl JobExistsException, ex_tbl) \<and>
   evaluate_dataset ex_env 8 ''j8'' ''B'' (snd (evaluate_dataset ex_env 7 ''j7'' ''B'' ex_tbl))
     = (Inl JobExistsException, ex_tbl)"
proof -
  have h1: "dataset_get ex_env ''A'' = Inr ex_ds_ok"
    by (simp add: ex_env_def)
  have h2: "fst (validate_dataset ex_env ex_ds_ok) = Inr ()"
    by (simp add: validate_dataset_def memo_hit_def ex_defs)
  have h3: "count_active ''A'' [ex_job1] = 0"
    by (simp add: count_active_def status_defs ex_defs)
  have h4: "count_active ''B'' ex_tbl = 1"
    by (simp add: count_active_def status_defs ex_defs)
  have a: "count_active ''A'' [ex_job1] > 0 \<or>
           (dataset_get ex_env ''A'' = Inr ex_ds_ok \<and> fst (validate_dataset ex_env ex_ds_ok) = Inr ())"
    using h1 h2 by simp
  have b: "count_active ''B'' ex_tbl > 0 \<or>
           (dataset_get ex_env ''B'' = Inr ex_ds_bad \<and> fst (validate_dataset ex_env ex_ds_bad) = Inr ())"
    using h4 by simp
  have ra: "evaluate_dataset ex_env 8 ''j8'' ''A'' (snd (evaluate_dataset ex_env 7 ''j7'' ''A'' [ex_job1]))
              = (Inl JobExistsException, snd (evaluate_dataset ex_env 7 ''j7'' ''A'' [ex_job1])) \<and>
            fst (evaluate_dataset ex_env 7 ''j7'' ''A'' [ex_job1]) = Inr ''j7'' \<and>
            length (snd (evaluate_dataset ex_env 7 ''j7'' ''A'' [ex_job1])) = 2 \<and>
            count_active ''A'' (snd (evaluate_dataset ex_env 7 ''j7'' ''A'' [ex_job1])) = 1"
    using h3 evaluate_dataset_twice [OF a, of 8 "''j8''" 7 "''j7''"] by simp
  have nz: "count_active ''B'' ex_tbl \<noteq> 0"
    using h4 by simp
  have rb: "evaluate_dataset ex_env 8 ''j8'' ''B'' (snd (evaluate_dataset ex_env 7 ''j7'' ''B'' ex_tbl))
              = (Inl JobExistsException, snd (evaluate_dataset ex_env 7 ''j7'' ''B'' ex_tbl)) \<and>
            evaluate_dataset ex_env 7 ''j7'' ''B'' ex_tbl = (Inl JobExistsException, ex_tbl)"
    using nz evaluate_dataset_twice [OF b, of 8 "''j8''" 7 "''j7''"] by argo
  have sb: "snd (evaluate_dataset ex_env 7 ''j7'' ''B'' ex_tbl) = ex_tbl"
    using rb by simp
  have rb2: "evaluate_dataset ex_env 8 ''j8'' ''B'' (snd (evaluate_dataset ex_env 7 ''j7'' ''B'' ex_tbl))
              = (Inl JobExistsException, ex_tbl)"
    using rb unfolding sb by blast
  show ?thesis
    using h1 h2 h3 h4 ra rb rb2 by blast
qed

text \<open>
  Dataset B refers to recording R, which has no low-level data. Two calls in succession
  on the empty table both stop in validation: the second raises the generic exception
  for R, not \<open>JobExistsException\<close>, and the table holds no job at all.
\<close>

theorem evaluate_dataset_twice_counterexample:
  "fst (evaluate_dataset ex_env 2 ''j8'' ''B'' (snd (evaluate_dataset ex_env 1 ''j7'' ''B'' [])))
     = Inl (Exception (missing_msg ''R'')) \<and>
   fst (evaluate_dataset ex_env 2 ''j8'' ''B'' (snd (evaluate_dataset ex_env 1 ''j7'' ''B'' [])))
     \<noteq> Inl JobExistsException \<and>
   snd (evaluate_dataset ex_env 2 ''j8'' ''B'' (snd (evaluate_dataset ex_env 1 ''j7'' ''B'' []))) = []"
  by (simp add: evaluate_dataset_def create_job_def count_active_def validate_dataset_def
      memo_hit_def status_defs ex_defs)

text \<open>
  C4. When dataset id \<open>d\<close> has no pending or running job, \<open>db.dataset.get\<close> resolves it
  and \<open>validate_dataset\<close> accepts the dataset, \<open>evaluate_dataset\<close> returns the id that
  \<open>uuid_generate_v4()\<close> produced in this call and leaves the table with exactly one more
  row: a job with that id, for \<open>d\<close>, with status pending and \<open>created\<close> the time of the
  insertion.
\<close>

theorem evaluate_dataset_creates_pending_job:
  assumes "count_active d tbl = 0"
    and "dataset_get e d = Inr ds"
    and "fst (validate_dataset e ds) = Inr ()"
  shows "\<exists>j. evaluate_dataset e now new_id d tbl = (Inr new_id, tbl @ [j]) \<and>
             job_id j = new_id \<and> dataset_id j = d \<and> status j = STATUS_PENDING \<and>
             created j = now"
  using assms by (simp add: evaluate_dataset_def create_job_def new_row_def)

theorem evaluate_dataset_creates_pending_job_witness:
  "count_active ''A'' [ex_job1] = 0 \<and>
   dataset_get ex_env ''A'' = Inr ex_ds_ok \<and>
   fst (validate_dataset ex_env ex_ds_ok) = Inr () \<and>
   fst (evaluate_dataset ex_env 7 ''j7'' ''A'' [ex_job1]) = Inr ''j7'' \<and>
   length (snd (evaluate_dataset ex_env 7 ''j7'' ''A'' [ex_job1])) = 2 \<and>
   status (snd (evaluate_dataset ex_env 7 ''j7'' ''A'' [ex_job1]) ! 1) = ''pending'' \<and>
   created (snd (evaluate_dataset ex_env 7 ''j7'' ''A'' [ex_job1]) ! 1) = 7"
proof -
  have h1: "count_active ''A'' [ex_job1] = 0"
    by (simp add: count_active_def status_defs ex_defs)
  have h2: "dataset_get ex_env ''A'' = Inr ex_ds_ok"
    by (simp add: ex_env_def)
  have h3: "fst (validate_dataset ex_env ex_ds_ok) = Inr ()"
    by (simp add: validate_dataset_def memo_hit_def ex_defs)
  obtain j where j: "evaluate_dataset ex_env 7 ''j7'' ''A'' [ex_job1] = (Inr ''j7'', [ex_job1] @ [j])"
      "status j = STATUS_PENDING" "created j = 7"
    using evaluate_dataset_creates_pending_job [OF h1 h2 h3, of 7 "''j7''"] by blast
  show ?thesis using h1 h2 h3 j by (simp add: STATUS_PENDING_def)
qed

text \<open>
  C5, as amended. When dataset id \<open>d\<close> has no pending or running job, its dataset passes
  the structural validator, and \<open>r\<close> is the first recording, in the order of the classes
  and of the recordings within each class, for which \<open>count_lowlevel\<close> is zero, then
  \<open>evaluate_dataset\<close> raises the exception whose message names \<open>r\<close> and leaves the
  table as it was: no job is created.
\<close>

theorem evaluate_dataset_missing_lowlevel:
  assumes "count_active d tbl = 0"
    and "dataset_get e d = Inr ds"
    and "validator_validate e ds = None"
    and "concat (map recordings (classes ds)) = pre @ r # post"
    and "\<forall>x\<in>set pre. count_lowlevel e x > 0"
    and "count_lowlevel e r = 0"
  shows "evaluate_dataset e now new_id d tbl = (Inl (Exception (missing_msg r)), tbl)"
  using assms(1,2) validate_dataset_first_missing [OF assms(3-6)]
  by (simp add: evaluate_dataset_def)

theorem evaluate_dataset_missing_lowlevel_witness:
  "count_active ''B'' [ex_job1] = 0 \<and>
   dataset_get ex_env ''B'' = Inr ex_ds_bad \<and>
   validator_validate ex_env ex_ds_bad = None \<and>
   concat (map recordings (classes ex_ds_bad)) = [''r1''] @ ''R'' # [''r2''] \<and>
   count_lowlevel ex_env ''r1'' > 0 \<and>
   count_lowlevel ex_env ''R'' = 0 \<and>
   evaluate_dataset ex_env 7 ''j7'' ''B'' [ex_job1]
     = (Inl (Exception ''Can't find low-level data for recording: R''), [ex_job1])"
proof -
  have h1: "count_active ''B'' [ex_job1] = 0"
    by (simp add: count_active_def status_defs ex_defs)
  have h2: "dataset_get ex_env ''B'' = Inr ex_ds_bad"
    by (simp add: ex_env_def)
  have h3: "validator_validate ex_env ex_ds_bad = None"
    by (simp add: ex_env_def)
  have h4: "concat (map recordings (classes ex_ds_bad)) = [''r1''] @ ''R'' # [''r2'']"
    by (simp add: ex_ds_bad_def)
  have h5: "\<forall>x\<in>set [''r1'']. count_lowlevel ex_env x > 0"
    by (simp add: ex_env_def)
  have h6: "count_lowlevel ex_env ''R'' = 0"
    by (simp add: ex_env_def)
  show ?thesis
    using h1 h2 h3 h4 h5 h6 evaluate_dataset_missing_lowlevel [OF h1 h2 h3 h4 h5 h6, of 7 "''j7''"]
    by (simp add: missing_msg_def)
qed

text \<open>
  Dataset B refers to recording R, which has no low-level data, and the table already
  holds a pending job for B. The call stops at the existence check: it raises
  \<open>JobExistsException\<close>, not the exception that names R.
\<close>

theorem evaluate_dataset_missing_lowlevel_counterexample:
  "dataset_get ex_env ''B'' = Inr ex_ds_bad \<and>
   ''R'' \<in> set (concat (map recordings (classes ex_ds_bad))) \<and>
   count_lowlevel ex_env ''R'' = 0 \<and>
   evaluate_dataset ex_env 7 ''j7'' ''B'' ex_tbl = (Inl JobExistsException, ex_tbl) \<and>
   fst (evaluate_dataset ex_env 7 ''j7'' ''B'' ex_tbl) \<noteq> Inl (Exception (missing_msg ''R''))"
  by (simp add: evaluate_dataset_def count_active_def status_defs ex_defs)

subsection \<open>Validation\<close>

text \<open>
  C9. The memo of \<open>validate_dataset\<close> does nothing: for every dataset and every
  behaviour of the collaborators, \<open>validate_dataset\<close> has the outcome (the same
  exception or success) and the sequence of \<open>count_lowlevel\<close> calls of the variant
  without \<open>rec_memo\<close>, which looks up every recording reference, repeated ones too.
\<close>

theorem validate_dataset_memo_noop:
  "validate_dataset e ds = validate_dataset_nomemo e ds"
proof (cases "validator_validate e ds")
  case (Some err)
  then show ?thesis by (simp add: validate_dataset_def validate_dataset_nomemo_def)
next
  case None
  let ?v = "\<lparr>rec_memo = Map.empty, lookups = []\<rparr>"
  have "fst (check_classes (count_lowlevel e) (classes ds) ?v)
        = fst (check_classes_nomemo (count_lowlevel e) (classes ds) [])"
    using check_classes_fst [of "count_lowlevel e" "classes ds" ?v] by simp
  moreover have "lookups (snd (check_classes (count_lowlevel e) (classes ds) ?v))
        = snd (check_classes_nomemo (count_lowlevel e) (classes ds) [])"
    using check_classes_lookups [of "count_lowlevel e" "classes ds" ?v] by simp
  ultimately show ?thesis using None
    by (simp add: validate_dataset_def validate_dataset_nomemo_def prod_eq_iff split: prod.splits)
qed

text \<open>Recording r1 occurs in both classes of dataset A and is looked up both times.\<close>

theorem validate_dataset_memo_noop_witness:
  "validate_dataset ex_env ex_ds_ok = (Inr (), [''r1'', ''r2'', ''r1'']) \<and>
   validate_dataset_nomemo ex_env ex_ds_ok = (Inr (), [''r1'', ''r2'', ''r1''])"
proof -
  have "validate_dataset_nomemo ex_env ex_ds_ok = (Inr (), [''r1'', ''r2'', ''r1''])"
    by (simp add: validate_dataset_nomemo_def ex_defs)
  then show ?thesis
    using validate_dataset_memo_noop [of ex_env ex_ds_ok] by simp
qed

subsection \<open>Reading the queue\<close>

text \<open>
  C3. For every table, \<open>get_next_pending_job\<close> leaves the table as it is. When some job
  is pending it returns one job of the table that is pending and whose \<open>created\<close> is no
  later than that of any pending job; when none is pending it returns \<open>None\<close>, not an
  exception.
\<close>

theorem get_next_pending_job_oldest:
  "snd (get_next_pending_job tbl) = tbl \<and>
   (if \<exists>j\<in>set tbl. status j = STATUS_PENDING
    then \<exists>j. fst (get_next_pending_job tbl) = Inr (Some j) \<and> j \<in> set tbl \<and>
             status j = STATUS_PENDING \<and>
             (\<forall>k\<in>set tbl. status k = STATUS_PENDING \<longrightarrow> created j \<le> created k)
    else fst (get_next_pending_job tbl) = Inr None)"
proof -
  let ?p = "filter (\<lambda>j. status j = STATUS_PENDING) tbl"
  show ?thesis
  proof (cases "?p = []")
    case True
    then have "\<not> (\<exists>j\<in>set tbl. status j = STATUS_PENDING)"
      by (simp add: filter_empty_conv)
    then show ?thesis using True
      by (simp add: get_next_pending_job_def fetchone_def)
  next
    case False
    then have ex: "\<exists>j\<in>set tbl. status j = STATUS_PENDING"
      by (simp add: filter_empty_conv)
    obtain j where j: "fetchone (sort_key created ?p) = Some j" "j \<in> set ?p"
        "\<forall>k\<in>set ?p. created j \<le> created k"
      using fetchone_sort_key_least [OF False, of created] by blast
    have "fst (get_next_pending_job tbl) = Inr (Some j)"
      using j(1) by (simp add: get_next_pending_job_def)
    moreover have "j \<in> set tbl \<and> status j = STATUS_PENDING" using j(2) by simp
    moreover have "\<forall>k\<in>set tbl. status k = STATUS_PENDING \<longrightarrow> created j \<le> created k"
      using j(3) by simp
    moreover have "snd (get_next_pending_job tbl) = tbl"
      by (simp add: get_next_pending_job_def)
    ultimately show ?thesis using ex by auto
  qed
qed

text \<open>
  In the small store the pending jobs are j2 (created 3) and j3 (created 2): the call
  returns j3, the last row of the table. With only the finished job j1 it returns
  \<open>None\<close>.
\<close>

theorem get_next_pending_job_oldest_witness:
  "ex_job3 \<in> set ex_tbl \<and> status ex_job3 = STATUS_PENDING \<and>
   get_next_pending_job ex_tbl = (Inr (Some ex_job3), ex_tbl) \<and>
   get_next_pending_job [ex_job1] = (Inr None, [ex_job1])"
proof -
  have p: "ex_job3 \<in> set ex_tbl \<and> status ex_job3 = STATUS_PENDING"
    by (simp add: status_defs ex_defs)
  have q: "status ex_job1 \<noteq> STATUS_PENDING"
    by (simp add: status_defs ex_defs)
  have a: "fst (get_next_pending_job ex_tbl) = Inr (Some ex_job3)"
    by (simp add: get_next_pending_job_def fetchone_def status_defs ex_defs)
  show ?thesis
    using p q a get_next_pending_job_oldest [of ex_tbl] get_next_pending_job_oldest [of "[ex_job1]"]
    by (auto simp: prod_eq_iff)
qed

text \<open>
  C6. For every dataset id \<open>d\<close> and every table, however its rows were inserted,
  \<open>get_jobs_for_dataset\<close> returns exactly the rows whose \<open>dataset_id\<close> is \<open>d\<close>, each as
  often as the table holds it, in non-decreasing order of \<open>created\<close>, and leaves the
  table as it is.
\<close>

theorem get_jobs_for_dataset_sorted:
  "\<exists>js. get_jobs_for_dataset d tbl = (Inr js, tbl) \<and>
        mset js = mset (filter (\<lambda>j. dataset_id j = d) tbl) \<and>
        sorted (map created js)"
  by (simp add: get_jobs_for_dataset_def)

text \<open>The jobs of dataset A are j1 (created 5) and j3 (created 2), listed oldest first.\<close>

theorem get_jobs_for_dataset_sorted_witness:
  "get_jobs_for_dataset ''A'' ex_tbl = (Inr [ex_job3, ex_job1], ex_tbl)"
proof -
  have "fst (get_jobs_for_dataset ''A'' ex_tbl) = Inr [ex_job3, ex_job1]"
    by (simp add: get_jobs_for_dataset_def ex_defs)
  then show ?thesis
    using get_jobs_for_dataset_sorted [of "''A''" ex_tbl] by auto
qed

subsection \<open>Reporting\<close>

text \<open>
  C2. For every job id and every status that is none of pending, running, done and
  failed, \<open>set_job_status\<close> raises \<open>IncorrectJobStatusException\<close> and leaves the table
  as it is, so that no job's \<open>status\<close>, \<open>status_msg\<close> or \<open>updated\<close> changes.
\<close>

theorem set_job_status_rejects_unknown:
  "st \<notin> {STATUS_PENDING, STATUS_RUNNING, STATUS_DONE, STATUS_FAILED} \<Longrightarrow>
   set_job_status i st msg now tbl = (Inl IncorrectJobStatusException, tbl)"
  by (simp add: set_job_status_def)

theorem set_job_status_rejects_unknown_witness:
  "''cancelled'' \<notin> {STATUS_PENDING, STATUS_RUNNING, STATUS_DONE, STATUS_FAILED} \<and>
   set_job_status ''j2'' ''cancelled'' (Some ''stopped'') 9 ex_tbl
     = (Inl IncorrectJobStatusException, ex_tbl)"
proof -
  have h: "''cancelled'' \<notin> {STATUS_PENDING, STATUS_RUNNING, STATUS_DONE, STATUS_FAILED}"
    by (simp add: status_defs)
  show ?thesis
    using h set_job_status_rejects_unknown [OF h, of "''j2''" "Some ''stopped''" 9 ex_tbl] by simp
qed

text \<open>
  C7. For every job id \<open>i\<close> and payload \<open>r\<close>, \<open>set_job_result\<close> returns without an
  exception and keeps the rows of the table in place. In every row it keeps \<open>id\<close>,
  \<open>dataset_id\<close>, \<open>status\<close>, \<open>status_msg\<close> and \<open>created\<close>; a row whose id is \<open>i\<close> gets
  \<open>result = r\<close> and \<open>updated = now\<close>, whatever its status; every other row is unchanged.
\<close>

theorem set_job_result_frame:
  "\<exists>tbl'. set_job_result i r now tbl = (Inr (), tbl') \<and> length tbl' = length tbl \<and>
     (\<forall>n<length tbl.
        job_id (tbl' ! n) = job_id (tbl ! n) \<and>
        dataset_id (tbl' ! n) = dataset_id (tbl ! n) \<and>
        status (tbl' ! n) = status (tbl ! n) \<and>
        status_msg (tbl' ! n) = status_msg (tbl ! n) \<and>
        created (tbl' ! n) = created (tbl ! n) \<and>
        (job_id (tbl ! n) = i \<longrightarrow> result (tbl' ! n) = r \<and> updated (tbl' ! n) = now) \<and>
        (job_id (tbl ! n) \<noteq> i \<longrightarrow> tbl' ! n = tbl ! n))"
  by (simp add: set_job_result_def)

theorem set_job_result_frame_witness:
  "(1::nat) < length ex_tbl \<and> job_id (ex_tbl ! 1) = ''j2'' \<and>
   (0::nat) < length ex_tbl \<and> job_id (ex_tbl ! 0) \<noteq> ''j2'' \<and>
   fst (set_job_result ''j2'' (Some ''{}'') 9 ex_tbl) = Inr () \<and>
   result (snd (set_job_result ''j2'' (Some ''{}'') 9 ex_tbl) ! 1) = Some ''{}'' \<and>
   updated (snd (set_job_result ''j2'' (Some ''{}'') 9 ex_tbl) ! 1) = 9 \<and>
   status (snd (set_job_result ''j2'' (Some ''{}'') 9 ex_tbl) ! 1) = status ex_job2 \<and>
   created (snd (set_job_result ''j2'' (Some ''{}'') 9 ex_tbl) ! 1) = created ex_job2 \<and>
   snd (set_job_result ''j2'' (Some ''{}'') 9 ex_tbl) ! 0 = ex_job1"
proof -
  have h: "(1::nat) < length ex_tbl \<and> job_id (ex_tbl ! 1) = ''j2'' \<and>
           (0::nat) < length ex_tbl \<and> job_id (ex_tbl ! 0) \<noteq> ''j2''"
    by (simp add: ex_defs)
  obtain tbl' where t: "set_job_result ''j2'' (Some ''{}'') 9 ex_tbl = (Inr (), tbl')"
    and f: "\<forall>n<length ex_tbl.
        job_id (tbl' ! n) = job_id (ex_tbl ! n) \<and>
        dataset_id (tbl' ! n) = dataset_id (ex_tbl ! n) \<and>
        status (tbl' ! n) = status (ex_tbl ! n) \<and>
        status_msg (tbl' ! n) = status_msg (ex_tbl ! n) \<and>
        created (tbl' ! n) = created (ex_tbl ! n) \<and>
        (job_id (ex_tbl ! n) = ''j2'' \<longrightarrow> result (tbl' ! n) = Some ''{}'' \<and> updated (tbl' ! n) = 9) \<and>
        (job_id (ex_tbl ! n) \<noteq> ''j2'' \<longrightarrow> tbl' ! n = ex_tbl ! n)"
    using set_job_result_frame [of "''j2''" "Some ''{}''" 9 ex_tbl] by blast
  have f1: "result (tbl' ! 1) = Some ''{}'' \<and> updated (tbl' ! 1) = 9 \<and>
            status (tbl' ! 1) = status ex_job2 \<and> created (tbl' ! 1) = created ex_job2"
    using f [rule_format, of 1] by (simp add: ex_defs)
  have f0: "tbl' ! 0 = ex_job1"
    using f [rule_format, of 0] by (simp add: ex_defs)
  show ?thesis using h t f1 f0 by simp
qed

text \<open>
  C8. For every job id \<open>i\<close> and payload \<open>r\<close>, two calls of \<open>set_job_result\<close> with the same
  \<open>r\<close> in succession both return without an exception; a row whose id is \<open>i\<close> has
  \<open>result = r\<close> after the first call and after the second, and its \<open>updated\<close> is the
  time of the first call after the first and the time of the second call after the
  second. Apart from the time written, the second call changes nothing: the table is
  the one a single call at the later time leaves.
\<close>

theorem set_job_result_twice:
  "fst (set_job_result i r t1 tbl) = Inr () \<and>
   fst (set_job_result i r t2 (snd (set_job_result i r t1 tbl))) = Inr () \<and>
   snd (set_job_result i r t2 (snd (set_job_result i r t1 tbl))) = snd (set_job_result i r t2 tbl) \<and>
   (\<forall>n<length tbl. job_id (tbl ! n) = i \<longrightarrow>
      result (snd (set_job_result i r t1 tbl) ! n) = r \<and>
      updated (snd (set_job_result i r t1 tbl) ! n) = t1 \<and>
      result (snd (set_job_result i r t2 (snd (set_job_result i r t1 tbl))) ! n) = r \<and>
      updated (snd (set_job_result i r t2 (snd (set_job_result i r t1 tbl))) ! n) = t2)"
  by (simp add: set_job_result_def)

theorem set_job_result_twice_witness:
  "(1::nat) < length ex_tbl \<and> job_id (ex_tbl ! 1) = ''j2'' \<and>
   result (snd (set_job_result ''j2'' (Some ''{}'') 8 ex_tbl) ! 1) = Some ''{}'' \<and>
   updated (snd (set_job_result ''j2'' (Some ''{}'') 8 ex_tbl) ! 1) = 8 \<and>
   result (snd (set_job_result ''j2'' (Some ''{}'') 9
                  (snd (set_job_result ''j2'' (Some ''{}'') 8 ex_tbl))) ! 1) = Some ''{}'' \<and>
   updated (snd (set_job_result ''j2'' (Some ''{}'') 9
                   (snd (set_job_result ''j2'' (Some ''{}'') 8 ex_tbl))) ! 1) = 9"
proof -
  have h: "(1::nat) < length ex_tbl \<and> job_id (ex_tbl ! 1) = ''j2''"
    by (simp add: ex_defs)
  have "\<forall>n<length ex_tbl. job_id (ex_tbl ! n) = ''j2'' \<longrightarrow>
      result (snd (set_job_result ''j2'' (Some ''{}'') 8 ex_tbl) ! n) = Some ''{}'' \<and>
      updated (snd (set_job_result ''j2'' (Some ''{}'') 8 ex_tbl) ! n) = 8 \<and>
      result (snd (set_job_result ''j2'' (Some ''{}'') 9
                     (snd (set_job_result ''j2'' (Some ''{}'') 8 ex_tbl))) ! n) = Some ''{}'' \<and>
      updated (snd (set_job_result ''j2'' (Some ''{}'') 9
                      (snd (set_job_result ''j2'' (Some ''{}'') 8 ex_tbl))) ! n) = 9"
    using set_job_result_twice [of "''j2''" "Some ''{}''" 8 ex_tbl 9] by blast
  then show ?thesis using h by blast
qed

text \<open>
  C10. When no row of the table has id \<open>i\<close>, \<open>set_job_status\<close> with one of the four
  statuses and \<open>set_job_result\<close> both return without an exception and leave the table
  as it is, and \<open>get_job\<close> returns \<open>None\<close>.
\<close>

theorem unknown_job_id_noop:
  assumes "i \<notin> job_id ` set tbl"
    and "st \<in> {STATUS_PENDING, STATUS_RUNNING, STATUS_DONE, STATUS_FAILED}"
  shows "set_job_status i st msg now tbl = (Inr (), tbl) \<and>
         set_job_result i r now tbl = (Inr (), tbl) \<and>
         get_job i tbl = (Inr None, tbl)"
proof -
  have "set_job_status i st msg now tbl = (Inr (), tbl)"
    using assms(2) map_unmatched_id [OF assms(1)] by (simp add: set_job_status_def)
  moreover have "set_job_result i r now tbl = (Inr (), tbl)"
    using map_unmatched_id [OF assms(1)] by (simp add: set_job_result_def)
  moreover have "get_job i tbl = (Inr None, tbl)"
    using filter_unmatched_id [OF assms(1)] by (simp add: get_job_def fetchone_def)
  ultimately show ?thesis by simp
qed

theorem unknown_job_id_noop_witness:
  "''j0'' \<notin> job_id ` set ex_tbl \<and>
   STATUS_DONE \<in> {STATUS_PENDING, STATUS_RUNNING, STATUS_DONE, STATUS_FAILED} \<and>
   set_job_status ''j0'' STATUS_DONE (Some ''ok'') 9 ex_tbl = (Inr (), ex_tbl) \<and>
   set_job_result ''j0'' (Some ''{}'') 9 ex_tbl = (Inr (), ex_tbl) \<and>
   get_job ''j0'' ex_tbl = (Inr None, ex_tbl)"
proof -
  have h1: "''j0'' \<notin> job_id ` set ex_tbl"
    by (simp add: ex_defs)
  have h2: "STATUS_DONE \<in> {STATUS_PENDING, STATUS_RUNNING, STATUS_DONE, STATUS_FAILED}"
    by simp
  show ?thesis
    using h1 h2 unknown_job_id_noop [OF h1 h2, of "Some ''ok''" 9 "Some ''{}''"] by simp
qed

end
